theory Spec2Isabelle
  imports Complex_Main
begin

section \<open>JavaScript numbers\<close>

text \<open>
  The front end computes with JavaScript numbers. The embedding takes a finite number as
  a real (exact arithmetic, no binary rounding) and keeps \<open>NaN\<close> as a value of its
  own, since \<open>0 / 0\<close> is \<open>NaN\<close> in JavaScript and every operation on \<open>NaN\<close>
  gives \<open>NaN\<close> again.
\<close>

datatype number = NaN | Num real

fun num_sub :: "number \<Rightarrow> number \<Rightarrow> number" where
  "num_sub (Num a) (Num b) = Num (a - b)"
| "num_sub _ _ = NaN"

fun num_mul :: "number \<Rightarrow> number \<Rightarrow> number" where
  "num_mul (Num a) (Num b) = Num (a * b)"
| "num_mul _ _ = NaN"

text \<open>
  \<open>a / b\<close> where \<open>b\<close> is an array length: the only zero divisor the code meets is
  the length of an empty array, whose \<open>reduce\<close> with initial value \<open>0\<close> is \<open>0\<close>,
  so the quotient there is \<open>0 / 0 = NaN\<close>.
\<close>

definition div_by_length :: "real \<Rightarrow> nat \<Rightarrow> number" where
  "div_by_length a n = (if n = 0 then NaN else Num (a / real n))"

text \<open>\<open>Math.round\<close>: the nearest integer, a tie going up.\<close>

fun Math_round :: "number \<Rightarrow> number" where
  "Math_round (Num x) = Num (of_int \<lfloor>x + 1 / 2\<rfloor>)"
| "Math_round NaN = NaN"

fun num_div_const :: "number \<Rightarrow> real \<Rightarrow> number" where
  "num_div_const (Num a) c = Num (a / c)"
| "num_div_const NaN c = NaN"

section \<open>Dashboard orders and \<open>calculatePnL\<close>\<close>

datatype side = Buy | Sell

datatype status = Pending | Filled | Rejected

text \<open>
  The fields of a dashboard order that \<open>calculatePnL\<close> reads or writes.
  \<open>filled_price\<close> is \<open>None\<close> where the object has \<open>null\<close> or no such field;
  \<open>pnl\<close> is \<open>None\<close> for \<open>null\<close>.
\<close>

record order =
  order_id :: string
  order_side :: side
  quantity_mwh :: real
  order_status :: status
  filled_price :: "real option"
  pnl :: "number option"

text \<open>\<open>order.filled_price || daPrice\<close>: a missing or zero fill price is falsy.\<close>

definition fill_price_or :: "real option \<Rightarrow> real \<Rightarrow> real" where
  "fill_price_or fp daPrice =
     (case fp of None \<Rightarrow> daPrice | Some p \<Rightarrow> if p = 0 then daPrice else p)"

definition calculatePnL :: "order list \<Rightarrow> real \<Rightarrow> real list \<Rightarrow> order list" where
  "calculatePnL orders daPrice rtPrices =
     (let rtAverage = div_by_length (foldl (\<lambda>sum price. sum + price) 0 rtPrices) (length rtPrices)
      in map (\<lambda>order.
           if order_status order \<noteq> Filled then order\<lparr>pnl := None\<rparr>
           else
             let fillPrice = fill_price_or (filled_price order) daPrice;
                 pnl0 = (if order_side order = Buy
                         then num_mul (num_sub rtAverage (Num fillPrice)) (Num (quantity_mwh order))
                         else num_mul (num_sub (Num fillPrice) rtAverage) (Num (quantity_mwh order)))
             in order\<lparr>pnl := Some (num_div_const (Math_round (num_mul pnl0 (Num 100))) 100)\<rparr>)
         orders)"

text \<open>Rounding to the cent, as \<open>Math.round(x * 100) / 100\<close> does on a finite number.\<close>

definition round_cents :: "real \<Rightarrow> real" where
  "round_cents x = of_int \<lfloor>x * 100 + 1 / 2\<rfloor> / 100"

text \<open>
  The settlement formula in the specification's words: every available bucket
  contributes its price difference times \<open>q / 12\<close>, the difference being
  \<open>P_DA - P_RT\<close> for a buy and \<open>P_RT - P_DA\<close> for a sell.
\<close>

definition spec_hour_pnl :: "side \<Rightarrow> real \<Rightarrow> real \<Rightarrow> real list \<Rightarrow> real" where
  "spec_hour_pnl s p_da q rts =
     (\<Sum>p_rt\<leftarrow>rts. (if s = Buy then p_da - p_rt else p_rt - p_da) * (q / 12))"


section \<open>Instants, wall clocks and time zones\<close>

text \<open>
  An instant is a number of milliseconds since 1970-01-01T00:00:00Z, as
  \<open>valueOf()\<close> gives it. An ISO-8601 string in UTC stands for the instant it
  denotes. A date string \<open>YYYY-MM-DD\<close> stands for its day number (days since
  1970-01-01 in the proleptic Gregorian calendar) and a time string \<open>HH:mm\<close> for
  its minute of the day; rendering and reading those digits is the date library's work
  and is not part of the embedding.
\<close>

type_synonym instant = int

text \<open>
  A time zone with one standard and one daylight-saving offset (minutes east of UTC),
  and the instants at which daylight saving is in force. This is what the zone
  database gives for a zone name; the database itself is not among the sources.
\<close>

record zone =
  std_offset :: int
  dst_offset :: int
  in_dst :: "instant \<Rightarrow> bool"

text \<open>The date library's \<open>tzOffset(timestamp, timezone)\<close>, in minutes.\<close>

definition tzOffset :: "instant \<Rightarrow> zone \<Rightarrow> int" where
  "tzOffset timestamp timezone =
     (if in_dst timezone timestamp then dst_offset timezone else std_offset timezone)"

text \<open>The reading of the zone's wall clock at an instant, in milliseconds.\<close>

definition wall_clock :: "instant \<Rightarrow> zone \<Rightarrow> int" where
  "wall_clock t timezone = t + tzOffset t timezone * 60 * 1000"


subsection \<open>The civil calendar, for writing instants and zone rules\<close>

definition days_from_civil :: "int \<Rightarrow> int \<Rightarrow> int \<Rightarrow> int" where
  "days_from_civil y m d =
     (let y' = (if m \<le> 2 then y - 1 else y);
          era = y' div 400;
          yoe = y' mod 400;
          doy = (153 * (if m > 2 then m - 3 else m + 9) + 2) div 5 + d - 1;
          doe = yoe * 365 + yoe div 4 - yoe div 100 + doy
      in era * 146097 + doe - 719468)"

definition civil_from_days :: "int \<Rightarrow> int \<times> int \<times> int" where
  "civil_from_days z =
     (let z' = z + 719468;
          era = z' div 146097;
          doe = z' mod 146097;
          yoe = (doe - doe div 1460 + doe div 36524 - doe div 146096) div 365;
          doy = doe - (365 * yoe + yoe div 4 - yoe div 100);
          mp = (5 * doy + 2) div 153;
          d = doy - (153 * mp + 2) div 5 + 1;
          m = (if mp < 10 then mp + 3 else mp - 9)
      in (yoe + era * 400 + (if m \<le> 2 then 1 else 0), m, d))"

definition year_of_day :: "int \<Rightarrow> int" where
  "year_of_day z = fst (civil_from_days z)"

text \<open>Day of the week, \<open>0\<close> for Sunday; 1970-01-01 was a Thursday.\<close>

definition weekday :: "int \<Rightarrow> int" where
  "weekday z = (z + 4) mod 7"

definition sunday_on_or_after :: "int \<Rightarrow> int" where
  "sunday_on_or_after z = z + (7 - weekday z) mod 7"

definition utc_instant :: "int \<Rightarrow> int \<Rightarrow> int \<Rightarrow> int \<Rightarrow> int \<Rightarrow> instant" where
  "utc_instant y m d hh mm = days_from_civil y m d * 86400000 + hh * 3600000 + mm * 60000"

text \<open>
  \<open>America/New_York\<close> under the United States rule in force since 2007: daylight
  saving from the second Sunday of March, 02:00 standard time (07:00 UTC), to the first
  Sunday of November, 02:00 daylight time (06:00 UTC). The embedding applies the rule
  to every year.
\<close>

definition us_dst_start :: "int \<Rightarrow> instant" where
  "us_dst_start y = (sunday_on_or_after (days_from_civil y 3 1) + 7) * 86400000 + 7 * 3600000"

definition us_dst_end :: "int \<Rightarrow> instant" where
  "us_dst_end y = sunday_on_or_after (days_from_civil y 11 1) * 86400000 + 6 * 3600000"

definition us_in_dst :: "instant \<Rightarrow> bool" where
  "us_in_dst t = (let y = year_of_day (t div 86400000) in us_dst_start y \<le> t \<and> t < us_dst_end y)"

definition America_New_York :: zone where
  "America_New_York = \<lparr>std_offset = - 300, dst_offset = - 240, in_dst = us_in_dst\<rparr>"

definition UTC_zone :: zone where
  "UTC_zone = \<lparr>std_offset = 0, dst_offset = 0, in_dst = (\<lambda>t. False)\<rparr>"

section \<open>\<open>utils/timezone.ts\<close>\<close>

definition MARKET_TIMEZONE :: zone where
  "MARKET_TIMEZONE = America_New_York"





record edt_display =
  date :: int
  time :: int
  datetime :: "int \<times> int"

definition utcToEdt :: "instant \<Rightarrow> edt_display" where
  "utcToEdt utcTimestamp =
     (let edtTime = wall_clock utcTimestamp MARKET_TIMEZONE;
          d = edtTime div 86400000;
          t = edtTime mod 86400000 div 60000
      in \<lparr>date = d, time = t, datetime = (d, t)\<rparr>)"



section \<open>Order creation\<close>

datatype market = DayAhead | RealTime




section \<open>The day-ahead cutoff\<close>

text \<open>
  \<open>dayjs()\<close> without a zone is the runtime's clock read on the runtime's local wall
  clock: both are arguments here. \<open>hour()\<close> is the hour of that wall clock.
\<close>

definition dayjs_hour :: "instant \<Rightarrow> zone \<Rightarrow> int" where
  "dayjs_hour now runtime = wall_clock now runtime div 3600000 mod 24"

definition isDayAheadMarketOpen :: "zone \<Rightarrow> instant \<Rightarrow> bool" where
  "isDayAheadMarketOpen runtime now = (dayjs_hour now runtime < 11)"

definition isRealTimeMarketOpen :: bool where
  "isRealTimeMarketOpen = True"

text \<open>
  \<open>startOf('day')\<close> sets the local hours, minutes, seconds and milliseconds to zero;
  the instant of that wall-clock reading is found with the offset before a transition
  where the reading is repeated or skipped.
\<close>

definition local_to_utc :: "int \<Rightarrow> zone \<Rightarrow> instant" where
  "local_to_utc localTs runtime =
     (if in_dst runtime (localTs - dst_offset runtime * 60 * 1000)
      then localTs - dst_offset runtime * 60 * 1000
      else localTs - std_offset runtime * 60 * 1000)"

definition startOf_day :: "instant \<Rightarrow> zone \<Rightarrow> instant" where
  "startOf_day now runtime =
     (let localTs = wall_clock now runtime
      in local_to_utc (localTs - localTs mod 86400000) runtime)"

definition isDATradingOpen :: "zone \<Rightarrow> instant \<Rightarrow> bool" where
  "isDATradingOpen runtime now =
     (let cutoff = startOf_day now runtime + 11 * 3600000
      in now < cutoff)"

definition isRTMarketOpen :: bool where
  "isRTMarketOpen = True"

text \<open>
  The market state in the specification's words: day-ahead ordering is permitted
  when the instant is before 11:00 on the wall clock of \<open>America/New_York\<close>.
\<close>

definition spec_da_orders_enabled :: "instant \<Rightarrow> bool" where
  "spec_da_orders_enabled now = (wall_clock now America_New_York mod 86400000 < 11 * 3600000)"

section \<open>Slot caps: \<open>marketUtils.validateOrderLimits\<close>\<close>

text \<open>The \<open>Order\<close> interface of the API client.\<close>

record api_order =
  api_id :: string
  api_market :: market
  api_user_id :: string
  api_node :: string
  api_hour_start :: string
  api_time_slot :: "string option"
  api_side :: side
  api_limit_price :: real
  api_quantity_mwh :: real
  api_status :: status
  api_filled_price :: "real option"
  api_created_at :: string
  api_updated_at :: "string option"

record order_limits =
  isValid :: bool
  currentCount :: nat
  maxCount :: nat
  remaining :: int

definition validateOrderLimits :: "market \<Rightarrow> string \<Rightarrow> api_order list \<Rightarrow> order_limits" where
  "validateOrderLimits market timeSlot existingOrders =
     (let maxOrders = (if market = DayAhead then 10 else 50 :: nat);
          slotOrders = filter (\<lambda>order.
              if market = DayAhead
              then api_market order = DayAhead \<and> api_hour_start order = timeSlot
              else api_market order = RealTime \<and> api_time_slot order = Some timeSlot)
            existingOrders
      in \<lparr>isValid = (length slotOrders < maxOrders),
          currentCount = length slotOrders,
          maxCount = maxOrders,
          remaining = int maxOrders - int (length slotOrders)\<rparr>)"

section \<open>The order page: submitting and deleting\<close>

text \<open>The \<open>Order\<close> interface of the order page.\<close>

record ui_order =
  ui_id :: string
  ui_market :: market
  ui_hour :: string
  ui_side :: side
  ui_quantity :: real
  ui_limitPrice :: real
  ui_status :: status
  ui_fillPrice :: "real option"
  ui_pnl :: "real option"
  ui_createdAt :: string
  ui_node :: string
  ui_timeSlot :: "string option"

record market_rules =
  cutoffTime :: string
  maxOrdersPerSlot :: nat
  timeIncrement :: string
  description :: string
  settlement :: string

definition getMarketRules :: "market \<Rightarrow> market_rules" where
  "getMarketRules market =
     (if market = DayAhead
      then \<lparr>cutoffTime = ''11:00 AM'', maxOrdersPerSlot = 10, timeIncrement = ''1 hour'',
            description = ''Submit bids before 11AM for hourly delivery slots'',
            settlement = ''Settled at DA closing price''\<rparr>
      else \<lparr>cutoffTime = ''Continuous'', maxOrdersPerSlot = 50, timeIncrement = ''5 minutes'',
            description = ''Continuous trading in 5-minute intervals'',
            settlement = ''Immediate settlement at RT price''\<rparr>)"

definition getOrdersPerSlot :: "ui_order list \<Rightarrow> market \<Rightarrow> string \<Rightarrow> nat" where
  "getOrdersPerSlot orders market timeSlot =
     (if market = DayAhead
      then length (filter (\<lambda>order. ui_market order = DayAhead \<and> ui_hour order = timeSlot) orders)
      else length (filter (\<lambda>order. ui_market order = RealTime \<and> ui_timeSlot order = Some timeSlot) orders))"

record position =
  current_net_position :: real
  projected_net_position :: real
  buy_volume :: real
  sell_volume :: real

text \<open>The state of the page that the two handlers read or write.\<close>

record order_page =
  pg_orders :: "ui_order list"
  pg_selectedMarket :: market
  pg_selectedHour :: string
  pg_selectedTimeSlot :: string
  pg_currentPosition :: "position option"

definition currentSlotOrders :: "order_page \<Rightarrow> nat" where
  "currentSlotOrders page =
     (if pg_selectedMarket page = DayAhead
      then (if pg_selectedHour page \<noteq> [] then getOrdersPerSlot (pg_orders page) (pg_selectedMarket page) (pg_selectedHour page) else 0)
      else (if pg_selectedTimeSlot page \<noteq> [] then getOrdersPerSlot (pg_orders page) (pg_selectedMarket page) (pg_selectedTimeSlot page) else 0))"

definition isMarketOpen :: "zone \<Rightarrow> instant \<Rightarrow> market \<Rightarrow> bool" where
  "isMarketOpen runtime now market =
     (if market = DayAhead then dayjs_hour now runtime < 11 else True)"

record submit_values =
  sv_hour :: string
  sv_timeSlot :: "string option"
  sv_side :: side
  sv_quantity :: real
  sv_limitPrice :: real

text \<open>The three messages with which \<open>handleSubmitOrder\<close> gives up.\<close>

datatype submit_error =
    DayAheadClosed
  | MaximumOrdersReached nat string
  | CannotSell real real

text \<open>\<open>String(n)\<close> for a natural number, and \<open>padStart\<close>.\<close>

fun digits :: "nat \<Rightarrow> string" where
  "digits n = (if n < 10 then [char_of (48 + n)] else digits (n div 10) @ [char_of (48 + n mod 10)])"

definition padStart :: "nat \<Rightarrow> char \<Rightarrow> string \<Rightarrow> string" where
  "padStart n c s = replicate (n - length s) c @ s"

definition newOrder :: "string \<Rightarrow> order_page \<Rightarrow> submit_values \<Rightarrow> ui_order" where
  "newOrder createdAt page values =
     \<lparr>ui_id = ''ORD-'' @ padStart 3 (CHR ''0'') (digits (length (pg_orders page) + 1)),
      ui_market = pg_selectedMarket page,
      ui_hour = (if pg_selectedMarket page = DayAhead then sv_hour values
                 else (case sv_timeSlot values of
                         None \<Rightarrow> ''undefined''
                       | Some ts \<Rightarrow> takeWhile (\<lambda>c. c \<noteq> CHR '':'') ts) @ '':00''),
      ui_side = sv_side values,
      ui_quantity = sv_quantity values,
      ui_limitPrice = sv_limitPrice values,
      ui_status = Pending,
      ui_fillPrice = None,
      ui_pnl = None,
      ui_createdAt = createdAt,
      ui_node = ''PJM_RTO'',
      ui_timeSlot = (if pg_selectedMarket page = RealTime then sv_timeSlot values else None)\<rparr>"

definition handleSubmitOrder ::
  "zone \<Rightarrow> instant \<Rightarrow> string \<Rightarrow> order_page \<Rightarrow> submit_values \<Rightarrow> submit_error + order_page" where
  "handleSubmitOrder runtime now createdAt page values =
     (let maxOrdersPerSlot = maxOrdersPerSlot (getMarketRules (pg_selectedMarket page));
          marketRules = getMarketRules (pg_selectedMarket page);
          submitted = page\<lparr>pg_orders := newOrder createdAt page values # pg_orders page,
                           pg_selectedHour := [], pg_selectedTimeSlot := []\<rparr>
      in
      if pg_selectedMarket page = DayAhead \<and> \<not> isMarketOpen runtime now DayAhead
      then Inl DayAheadClosed
      else if currentSlotOrders page \<ge> maxOrdersPerSlot
      then Inl (MaximumOrdersReached maxOrdersPerSlot (timeIncrement marketRules))
      else
        case (if sv_side values = Sell then pg_currentPosition page else None) of
          Some pos \<Rightarrow>
            let maxSellable = max 0 (projected_net_position pos)
            in if sv_quantity values > maxSellable
               then Inl (CannotSell (sv_quantity values) maxSellable)
               else Inr submitted
        | None \<Rightarrow> Inr submitted)"



section \<open>The matching engine\<close>

text \<open>
  The Deterministic Matching Engine (contract \<open>match\<close>) is backend code; the
  sources hold only the client of its HTTP interface and its documentation. Its data
  follow the specification: a limit order carries its limit price, a market order has
  none; an order is filled in full at a price or rejected with a reason.
\<close>

datatype order_type = Market | Limit real

datatype reject_reason = LimitNotMet

datatype match_result =
    MatchFilled real real
  | MatchRejected reject_reason

record book_order =
  bo_market :: market
  bo_side :: side
  bo_order_type :: order_type
  bo_quantity_mwh :: real

text \<open>
  Modelled from the spec: the decision of the matching engine for one order, which is
  missing from the sources. An order is evaluated against the reference price of its
  tick: a market order always fills at the reference price for the full quantity; a
  limit buy fills at the reference price iff \<open>reference_price <= limit_price\<close>; a
  limit sell fills at the reference price iff \<open>reference_price >= limit_price\<close>;
  otherwise the order is rejected with reason \<open>LimitNotMet\<close>.
\<close>

definition match_order :: "real \<Rightarrow> book_order \<Rightarrow> match_result" where
  "match_order reference_price order =
     (case bo_order_type order of
        Market \<Rightarrow> MatchFilled reference_price (bo_quantity_mwh order)
      | Limit limit_price \<Rightarrow>
          (case bo_side order of
             Buy \<Rightarrow> if reference_price \<le> limit_price
                    then MatchFilled reference_price (bo_quantity_mwh order)
                    else MatchRejected LimitNotMet
           | Sell \<Rightarrow> if reference_price \<ge> limit_price
                    then MatchFilled reference_price (bo_quantity_mwh order)
                    else MatchRejected LimitNotMet))"

section \<open>Example inputs\<close>

definition buy_40_12 :: order where
  "buy_40_12 = \<lparr>order_id = ''ORD-001'', order_side = Buy, quantity_mwh = 12,
     order_status = Filled, filled_price = Some 40, pnl = None\<rparr>"

definition sell_40_12 :: order where
  "sell_40_12 = \<lparr>order_id = ''ORD-002'', order_side = Sell, quantity_mwh = 12,
     order_status = Filled, filled_price = Some 40, pnl = None\<rparr>"

definition buy_48_2_5 :: order where
  "buy_48_2_5 = \<lparr>order_id = ''ORD-003'', order_side = Buy, quantity_mwh = 2.5,
     order_status = Filled, filled_price = Some 48, pnl = None\<rparr>"

definition pending_buy :: order where
  "pending_buy = \<lparr>order_id = ''ORD-004'', order_side = Buy, quantity_mwh = 1,
     order_status = Pending, filled_price = None, pnl = None\<rparr>"

text \<open>Twelve five-minute prices whose mean is 52.30.\<close>

definition rt_hour_52_30 :: "real list" where
  "rt_hour_52_30 = [50.30, 54.30, 51.30, 53.30, 52.30, 52.30,
                    50.30, 54.30, 51.30, 53.30, 52.30, 52.30]"

definition da_order :: "string \<Rightarrow> api_order" where
  "da_order h = \<lparr>api_id = ''550e8400'', api_market = DayAhead, api_user_id = ''demo_user'',
     api_node = ''PJM_RTO'', api_hour_start = h, api_time_slot = None, api_side = Buy,
     api_limit_price = 50, api_quantity_mwh = 1, api_status = Pending,
     api_filled_price = None, api_created_at = ''2025-08-16T09:00:00Z'',
     api_updated_at = None\<rparr>"




text \<open>The order of the specification's rejection scenario.\<close>

definition da_sell_55 :: book_order where
  "da_sell_55 = \<lparr>bo_market = DayAhead, bo_side = Sell, bo_order_type = Limit 55,
     bo_quantity_mwh = 3\<rparr>"

section \<open>Properties of \<open>calculatePnL\<close>\<close>

lemma foldl_add_sum_list:
  "foldl (\<lambda>sum price. sum + price) a xs = a + sum_list (xs :: real list)"
  by (induction xs arbitrary: a) simp_all



text \<open>
  What the function computes for a filled order when at least one price is there: the
  mean of the prices against the fill price, times the whole quantity, to the cent.
\<close>

lemma pnl_filled:
  assumes "i < length orders" "order_status (orders ! i) = Filled" "rts \<noteq> []"
  shows "pnl (calculatePnL orders da rts ! i) =
     Some (Num (round_cents
       ((if order_side (orders ! i) = Buy
         then sum_list rts / real (length rts) - fill_price_or (filled_price (orders ! i)) da
         else fill_price_or (filled_price (orders ! i)) da - sum_list rts / real (length rts))
        * quantity_mwh (orders ! i))))"
  using assms
  by (simp add: calculatePnL_def Let_def div_by_length_def foldl_add_sum_list round_cents_def)

lemma pnl_filled_no_prices:
  assumes "i < length orders" "order_status (orders ! i) = Filled"
  shows "pnl (calculatePnL orders da [] ! i) = Some NaN"
  using assms by (simp add: calculatePnL_def Let_def div_by_length_def)



lemmas pnl_eval =
  calculatePnL_def Let_def div_by_length_def fill_price_or_def round_cents_def
  spec_hour_pnl_def buy_40_12_def sell_40_12_def buy_48_2_5_def pending_buy_def
  rt_hour_52_30_def numeral_eq_Suc




text \<open>
  Claim C2. A buy filled at 48.00 for 2.5 MWh, with twelve real-time prices whose mean
  is 52.30, has the hour P&L 10.75.
\<close>

theorem calculatePnL_scenario:
  assumes "i < length orders" "order_status (orders ! i) = Filled"
    and "order_side (orders ! i) = Buy"
    and "filled_price (orders ! i) = Some 48" "quantity_mwh (orders ! i) = 2.5"
    and "length rts = 12" "sum_list rts / 12 = 52.30"
  shows "pnl (calculatePnL orders da rts ! i) = Some (Num 10.75)"
proof -
  have ne: "rts \<noteq> []" using assms(6) by auto
  have avg: "sum_list rts / real (length rts) = 52.30"
    using assms(6,7) by simp
  show ?thesis
    by (simp add: pnl_filled [OF assms(1,2) ne] avg assms(3,4,5) fill_price_or_def round_cents_def)
qed

theorem calculatePnL_scenario_witness:
  "(0::nat) < length [buy_48_2_5]
   \<and> order_status ([buy_48_2_5] ! 0) = Filled
   \<and> order_side ([buy_48_2_5] ! 0) = Buy
   \<and> filled_price ([buy_48_2_5] ! 0) = Some 48
   \<and> quantity_mwh ([buy_48_2_5] ! 0) = 2.5
   \<and> length rt_hour_52_30 = 12
   \<and> sum_list rt_hour_52_30 / 12 = 52.30
   \<and> pnl (calculatePnL [buy_48_2_5] 0 rt_hour_52_30 ! 0) = Some (Num 10.75)"
  using calculatePnL_scenario [of 0 "[buy_48_2_5]" rt_hour_52_30 0]
  by (simp add: buy_48_2_5_def rt_hour_52_30_def)




text \<open>
  Claim C10. The division by the number of prices is unguarded. For a filled order the
  P&L is a finite number exactly when the price list is non-empty; on the empty list it
  is \<open>NaN\<close>, not \<open>0\<close>.
\<close>

theorem calculatePnL_empty_prices:
  assumes "i < length orders" "order_status (orders ! i) = Filled"
  shows "((\<exists>v. pnl (calculatePnL orders da rts ! i) = Some (Num v)) \<longleftrightarrow> rts \<noteq> [])
         \<and> pnl (calculatePnL orders da [] ! i) = Some NaN
         \<and> pnl (calculatePnL orders da [] ! i) \<noteq> Some (Num 0)"
proof (cases "rts = []")
  case True
  then show ?thesis by (simp add: pnl_filled_no_prices [OF assms])
next
  case False
  then show ?thesis
    by (simp add: pnl_filled [OF assms False] pnl_filled_no_prices [OF assms])
qed

theorem calculatePnL_empty_prices_witness:
  "(1::nat) < length [pending_buy, buy_40_12]
   \<and> order_status ([pending_buy, buy_40_12] ! 1) = Filled
   \<and> pnl (calculatePnL [pending_buy, buy_40_12] 45 [] ! 1) = Some NaN
   \<and> pnl (calculatePnL [pending_buy, buy_40_12] 45 [] ! 0) = None"
  using calculatePnL_empty_prices [of 1 "[pending_buy, buy_40_12]" 45 "[]"]
  by (simp add: pnl_eval)


section \<open>Properties of the matching rule\<close>

text \<open>
  Claim C4. A limit buy fills at the reference price exactly when the reference price
  is at most the limit price, a limit sell exactly when it is at least the limit
  price, and otherwise the order is rejected with reason \<open>LimitNotMet\<close>; the
  day-ahead sell with limit 55.00 against the clearing price 50.00 is rejected with
  that reason.
\<close>

theorem match_order_limit:
  assumes "bo_order_type order = Limit limit_price"
  shows "(bo_side order = Buy \<longrightarrow>
            (match_order reference_price order = MatchFilled reference_price (bo_quantity_mwh order)
               \<longleftrightarrow> reference_price \<le> limit_price)
          \<and> (match_order reference_price order = MatchRejected LimitNotMet
               \<longleftrightarrow> \<not> reference_price \<le> limit_price))
       \<and> (bo_side order = Sell \<longrightarrow>
            (match_order reference_price order = MatchFilled reference_price (bo_quantity_mwh order)
               \<longleftrightarrow> reference_price \<ge> limit_price)
          \<and> (match_order reference_price order = MatchRejected LimitNotMet
               \<longleftrightarrow> \<not> reference_price \<ge> limit_price))
       \<and> match_order 50 da_sell_55 = MatchRejected LimitNotMet"
proof -
  have scenario: "match_order 50 da_sell_55 = MatchRejected LimitNotMet"
    by (simp add: match_order_def da_sell_55_def)
  show ?thesis
  proof (cases "bo_side order")
    case Buy
    with assms scenario show ?thesis
      by (simp add: match_order_def)
  next
    case Sell
    with assms scenario show ?thesis
      by (simp add: match_order_def)
  qed
qed

theorem match_order_limit_witness:
  "bo_order_type da_sell_55 = Limit 55
   \<and> bo_side da_sell_55 = Sell
   \<and> match_order 50 da_sell_55 = MatchRejected LimitNotMet
   \<and> match_order 55 da_sell_55 = MatchFilled 55 3
   \<and> match_order 60 da_sell_55 = MatchFilled 60 3"
proof -
  have h: "bo_order_type da_sell_55 = Limit 55"
    by (simp add: da_sell_55_def)
  have s: "bo_side da_sell_55 = Sell" "bo_quantity_mwh da_sell_55 = 3"
    by (simp_all add: da_sell_55_def)
  show ?thesis
    using h s match_order_limit [OF h, of 50] match_order_limit [OF h, of 55]
      match_order_limit [OF h, of 60]
    by simp
qed

section \<open>Properties of the day-ahead cutoff\<close>

lemma hour_before_11:
  "((w::int) div 3600000 mod 24 < 11) \<longleftrightarrow> (w mod 86400000 < 11 * 3600000)"
proof -
  have "w mod (3600000 * 24) = 3600000 * (w div 3600000 mod 24) + w mod 3600000"
    by (rule zmod_zmult2_eq) simp
  moreover have "0 \<le> w mod 3600000" "w mod 3600000 < 3600000"
    by simp_all
  moreover have "0 \<le> w div 3600000 mod 24" "w div 3600000 mod 24 < 24"
    by simp_all
  ultimately show ?thesis by simp linarith
qed

lemma isDayAheadMarketOpen_wall_clock:
  "isDayAheadMarketOpen runtime now \<longleftrightarrow> wall_clock now runtime mod 86400000 < 11 * 3600000"
  unfolding isDayAheadMarketOpen_def dayjs_hour_def by (rule hour_before_11)

text \<open>
  The cutoff built from \<open>startOf('day').add(11, 'hour')\<close> is eleven elapsed hours
  after local midnight: it is 11:00 on the wall clock when the offset has not changed
  since midnight.
\<close>

lemma isDATradingOpen_agrees:
  assumes midnight: "wall_clock (startOf_day now runtime) runtime
                     = wall_clock now runtime - wall_clock now runtime mod 86400000"
    and same: "tzOffset (startOf_day now runtime) runtime = tzOffset now runtime"
  shows "isDATradingOpen runtime now = isDayAheadMarketOpen runtime now"
proof -
  let ?L = "wall_clock now runtime"
  let ?s = "startOf_day now runtime"
  have s: "?s + tzOffset now runtime * 60000 = ?L - ?L mod 86400000"
    using midnight same by (simp add: wall_clock_def [of ?s])
  have n: "now + tzOffset now runtime * 60000 = ?L"
    by (simp add: wall_clock_def)
  have "(now < ?s + 11 * 3600000) \<longleftrightarrow> (?L mod 86400000 < 11 * 3600000)"
    using s n by linarith
  then show ?thesis
    by (simp add: isDATradingOpen_def Let_def isDayAheadMarketOpen_wall_clock)
qed

text \<open>
  On the day daylight saving begins the two checks differ in New York: at 11:30
  daylight time \<open>isDATradingOpen\<close> still reports the market open.
\<close>

lemma isDATradingOpen_dst_begin_example:
  "isDATradingOpen America_New_York (utc_instant 2025 3 9 15 30)
   \<and> \<not> isDayAheadMarketOpen America_New_York (utc_instant 2025 3 9 15 30)
   \<and> \<not> spec_da_orders_enabled (utc_instant 2025 3 9 15 30)"
  by code_simp

text \<open>
  Claim C5, as the code has it. \<open>isDayAheadMarketOpen\<close> reports day-ahead ordering
  permitted exactly when the time of day on the runtime's local wall clock is before
  11:00; that is the cutoff of \<open>America/New_York\<close> only in a runtime whose zone is
  \<open>America/New_York\<close>. \<open>isDATradingOpen\<close> agrees with it whenever the runtime's
  offset is the same at the instant and at the local midnight before it. Real-time
  ordering is reported permitted always.
\<close>

theorem day_ahead_cutoff_runtime_local:
  "(isDayAheadMarketOpen runtime now \<longleftrightarrow> wall_clock now runtime mod 86400000 < 11 * 3600000)
   \<and> (isDayAheadMarketOpen America_New_York now \<longleftrightarrow> spec_da_orders_enabled now)
   \<and> (wall_clock (startOf_day now runtime) runtime
         = wall_clock now runtime - wall_clock now runtime mod 86400000
       \<and> tzOffset (startOf_day now runtime) runtime = tzOffset now runtime
       \<longrightarrow> isDATradingOpen runtime now = isDayAheadMarketOpen runtime now)
   \<and> isRealTimeMarketOpen \<and> isRTMarketOpen"
  using isDayAheadMarketOpen_wall_clock [of runtime now]
    isDayAheadMarketOpen_wall_clock [of America_New_York now]
    isDATradingOpen_agrees [of now runtime]
  by (simp add: spec_da_orders_enabled_def isRealTimeMarketOpen_def isRTMarketOpen_def)

theorem day_ahead_cutoff_runtime_local_witness:
  "wall_clock (startOf_day (utc_instant 2025 8 16 14 30) America_New_York) America_New_York
     = wall_clock (utc_instant 2025 8 16 14 30) America_New_York
       - wall_clock (utc_instant 2025 8 16 14 30) America_New_York mod 86400000
   \<and> tzOffset (startOf_day (utc_instant 2025 8 16 14 30) America_New_York) America_New_York
     = tzOffset (utc_instant 2025 8 16 14 30) America_New_York
   \<and> wall_clock (utc_instant 2025 8 16 14 30) America_New_York mod 86400000
     = 10 * 3600000 + 30 * 60000
   \<and> isDayAheadMarketOpen America_New_York (utc_instant 2025 8 16 14 30)
   \<and> isDATradingOpen America_New_York (utc_instant 2025 8 16 14 30)"
proof -
  let ?now = "utc_instant 2025 8 16 14 30"
  have h1: "wall_clock (startOf_day ?now America_New_York) America_New_York
     = wall_clock ?now America_New_York - wall_clock ?now America_New_York mod 86400000"
    by code_simp
  have h2: "tzOffset (startOf_day ?now America_New_York) America_New_York
     = tzOffset ?now America_New_York"
    by code_simp
  have h3: "wall_clock ?now America_New_York mod 86400000 = 10 * 3600000 + 30 * 60000"
    by code_simp
  show ?thesis
    using h1 h2 h3 day_ahead_cutoff_runtime_local [of America_New_York ?now] by simp
qed

text \<open>
  Claim C5 as stated fails. At 2025-08-16T14:30:00Z it is 10:30 in New York, before
  the cutoff, and a runtime whose local zone is UTC reads 14:30: both checks report
  the day-ahead market closed.
\<close>

theorem day_ahead_cutoff_zone_counterexample:
  "\<not> isDayAheadMarketOpen UTC_zone (utc_instant 2025 8 16 14 30)
   \<and> \<not> isDATradingOpen UTC_zone (utc_instant 2025 8 16 14 30)
   \<and> spec_da_orders_enabled (utc_instant 2025 8 16 14 30)"
  by code_simp

section \<open>Properties of the slot caps\<close>

lemma getOrdersPerSlot_card:
  "getOrdersPerSlot os market timeSlot =
     card {i. i < length os \<and> ui_market (os ! i) = market
              \<and> (if market = DayAhead then ui_hour (os ! i) = timeSlot
                  else ui_timeSlot (os ! i) = Some timeSlot)}"
  by (cases market) (simp_all add: getOrdersPerSlot_def length_filter_conv_card)

lemma maxOrdersPerSlot_cap:
  "maxOrdersPerSlot (getMarketRules market) = (if market = DayAhead then 10 else 50)"
  by (simp add: getMarketRules_def)

lemma validateOrderLimits_count:
  "currentCount (validateOrderLimits market timeSlot existingOrders) =
     card {i. i < length existingOrders \<and> api_market (existingOrders ! i) = market
              \<and> (if market = DayAhead then api_hour_start (existingOrders ! i) = timeSlot
                  else api_time_slot (existingOrders ! i) = Some timeSlot)}"
  by (cases market) (simp_all add: validateOrderLimits_def Let_def length_filter_conv_card)

lemma validateOrderLimits_fields:
  "isValid (validateOrderLimits market timeSlot existingOrders)
     = (currentCount (validateOrderLimits market timeSlot existingOrders)
        < (if market = DayAhead then 10 else 50))"
  "remaining (validateOrderLimits market timeSlot existingOrders)
     = (if market = DayAhead then 10 else 50)
       - int (currentCount (validateOrderLimits market timeSlot existingOrders))"
  "maxCount (validateOrderLimits market timeSlot existingOrders)
     = (if market = DayAhead then 10 else 50)"
  by (simp_all add: validateOrderLimits_def Let_def)

lemma handleSubmitOrder_cap:
  "(\<exists>n inc. handleSubmitOrder runtime now createdAt page values = Inl (MaximumOrdersReached n inc))
   \<longleftrightarrow> \<not> (pg_selectedMarket page = DayAhead \<and> \<not> isMarketOpen runtime now DayAhead)
       \<and> \<not> currentSlotOrders page < (if pg_selectedMarket page = DayAhead then 10 else 50)"
  by (auto simp: handleSubmitOrder_def Let_def maxOrdersPerSlot_cap split: option.splits)

text \<open>
  Claim C6. \<open>validateOrderLimits\<close> accepts exactly when the number of existing
  orders of that market in that slot is below the cap, 10 for a day-ahead hour and 50
  for a real-time slot, and reports the cap minus that number as remaining;
  \<open>handleSubmitOrder\<close> gives up with the maximum-orders message exactly when the
  market is open and the count of the selected slot is not below the cap.
\<close>

theorem slot_cap_check:
  "(isValid (validateOrderLimits market timeSlot existingOrders) \<longleftrightarrow>
      card {i. i < length existingOrders \<and> api_market (existingOrders ! i) = market
               \<and> (if market = DayAhead then api_hour_start (existingOrders ! i) = timeSlot
                   else api_time_slot (existingOrders ! i) = Some timeSlot)}
      < (if market = DayAhead then 10 else 50))
   \<and> remaining (validateOrderLimits market timeSlot existingOrders) =
      (if market = DayAhead then 10 else 50)
      - int (card {i. i < length existingOrders \<and> api_market (existingOrders ! i) = market
               \<and> (if market = DayAhead then api_hour_start (existingOrders ! i) = timeSlot
                   else api_time_slot (existingOrders ! i) = Some timeSlot)})
   \<and> maxCount (validateOrderLimits market timeSlot existingOrders)
      = (if market = DayAhead then 10 else 50)
   \<and> ((\<exists>n inc. handleSubmitOrder runtime now createdAt page values
                  = Inl (MaximumOrdersReached n inc))
      \<longleftrightarrow> \<not> (pg_selectedMarket page = DayAhead \<and> \<not> isMarketOpen runtime now DayAhead)
          \<and> \<not> currentSlotOrders page < (if pg_selectedMarket page = DayAhead then 10 else 50))
   \<and> currentSlotOrders page =
      (if (if pg_selectedMarket page = DayAhead then pg_selectedHour page
           else pg_selectedTimeSlot page) = []
       then 0
       else card {i. i < length (pg_orders page)
                     \<and> ui_market (pg_orders page ! i) = pg_selectedMarket page
                     \<and> (if pg_selectedMarket page = DayAhead
                         then ui_hour (pg_orders page ! i) = pg_selectedHour page
                         else ui_timeSlot (pg_orders page ! i) = Some (pg_selectedTimeSlot page))})"
proof -
  have slot: "currentSlotOrders page =
      (if (if pg_selectedMarket page = DayAhead then pg_selectedHour page
           else pg_selectedTimeSlot page) = []
       then 0
       else card {i. i < length (pg_orders page)
                     \<and> ui_market (pg_orders page ! i) = pg_selectedMarket page
                     \<and> (if pg_selectedMarket page = DayAhead
                         then ui_hour (pg_orders page ! i) = pg_selectedHour page
                         else ui_timeSlot (pg_orders page ! i) = Some (pg_selectedTimeSlot page))})"
    by (simp add: currentSlotOrders_def getOrdersPerSlot_card)
  show ?thesis
    using validateOrderLimits_fields [of market timeSlot existingOrders]
      validateOrderLimits_count [of market timeSlot existingOrders]
      handleSubmitOrder_cap [of runtime now createdAt page "values"] slot
    by presburger
qed

theorem slot_cap_check_witness:
  "card {i. i < length (replicate 10 (da_order ''2025-08-16T18:00:00Z'') @ [da_order ''2025-08-16T19:00:00Z''])
            \<and> api_market ((replicate 10 (da_order ''2025-08-16T18:00:00Z'') @ [da_order ''2025-08-16T19:00:00Z'']) ! i) = DayAhead
            \<and> (if DayAhead = DayAhead
                then api_hour_start ((replicate 10 (da_order ''2025-08-16T18:00:00Z'') @ [da_order ''2025-08-16T19:00:00Z'']) ! i) = ''2025-08-16T18:00:00Z''
                else api_time_slot ((replicate 10 (da_order ''2025-08-16T18:00:00Z'') @ [da_order ''2025-08-16T19:00:00Z'']) ! i) = Some ''2025-08-16T18:00:00Z'')}
     = 10
   \<and> \<not> isValid (validateOrderLimits DayAhead ''2025-08-16T18:00:00Z''
         (replicate 10 (da_order ''2025-08-16T18:00:00Z'') @ [da_order ''2025-08-16T19:00:00Z'']))
   \<and> isValid (validateOrderLimits DayAhead ''2025-08-16T19:00:00Z''
         (replicate 10 (da_order ''2025-08-16T18:00:00Z'') @ [da_order ''2025-08-16T19:00:00Z'']))"
proof -
  let ?os = "replicate 10 (da_order ''2025-08-16T18:00:00Z'') @ [da_order ''2025-08-16T19:00:00Z'']"
  have full: "\<not> isValid (validateOrderLimits DayAhead ''2025-08-16T18:00:00Z'' ?os)"
    by code_simp
  have free: "isValid (validateOrderLimits DayAhead ''2025-08-16T19:00:00Z'' ?os)"
    by code_simp
  have left: "remaining (validateOrderLimits DayAhead ''2025-08-16T18:00:00Z'' ?os) = 0"
    by code_simp
  from left slot_cap_check [of DayAhead "''2025-08-16T18:00:00Z''" ?os]
  have "card {i. i < length ?os \<and> api_market (?os ! i) = DayAhead
            \<and> (if DayAhead = DayAhead
                then api_hour_start (?os ! i) = ''2025-08-16T18:00:00Z''
                else api_time_slot (?os ! i) = Some ''2025-08-16T18:00:00Z'')} = 10"
    by simp
  with full free show ?thesis by blast
qed

section \<open>Properties of deleting an order\<close>




section \<open>Properties of the time-zone conversions\<close>










text \<open>
  The two instants of the example below, as New York shows them: the same day, the
  same 01:30.
\<close>

lemma repeated_hour_display_example:
  "civil_from_days (date (utcToEdt (utc_instant 2025 11 2 5 30))) = (2025, 11, 2)
   \<and> time (utcToEdt (utc_instant 2025 11 2 5 30)) = 1 * 60 + 30
   \<and> civil_from_days (date (utcToEdt (utc_instant 2025 11 2 6 30))) = (2025, 11, 2)
   \<and> time (utcToEdt (utc_instant 2025 11 2 6 30)) = 1 * 60 + 30
   \<and> tzOffset (utc_instant 2025 11 2 5 30) MARKET_TIMEZONE = - 240
   \<and> tzOffset (utc_instant 2025 11 2 6 30) MARKET_TIMEZONE = - 300"
  by code_simp







end
